theory Spec2Isabelle
  imports Main "HOL-Library.AList" "HOL-Library.Product_Lexorder"
begin

section \<open>Thrown values and the Router's error mapping (pc\_server.js)\<close>

text \<open>
  JavaScript can throw any value. The two files throw three kinds:
  \<^item> a plain string (every \<open>throw `...`\<close> of pc\_database.js);
  \<^item> an object literal \<open>{isDomain, errorCode, message}\<close> (the routes of pc\_server.js);
    a field that is absent reads as \<open>undefined\<close>, here \<open>None\<close>, and \<open>isDomain\<close> is kept
    as its truthiness;
  \<^item> an \<open>Error\<close> instance with a name and a message (\<open>TypeError\<close> of the runtime, the
    errors of the MongoDB driver); it has no \<open>isDomain\<close> and no \<open>errorCode\<close> field.
\<close>

datatype thrown =
    ThrownString string
  | ThrownObject bool "string option" "string option"
  | ThrownError string string

text \<open>What \<open>async\<close> code can do: return, throw (a rejected promise), or end the process.\<close>

datatype 'a completion = Return 'a | Throw thrown | ProcessExit

definition OK :: nat where "OK = 200"
definition CREATED :: nat where "CREATED = 201"
definition BAD_REQUEST :: nat where "BAD_REQUEST = 400"
definition NOT_FOUND :: nat where "NOT_FOUND = 404"
definition CONFLICT :: nat where "CONFLICT = 409"
definition SERVER_ERROR :: nat where "SERVER_ERROR = 500"

record errorObj =
  status :: nat
  code :: "string option"
  message :: "string option"

text \<open>\<open>err.isDomain\<close> as a condition: \<open>undefined\<close> on a string and on an \<open>Error\<close>.\<close>

fun isDomain :: "thrown \<Rightarrow> bool" where
  "isDomain (ThrownObject d c m) = d"
| "isDomain (ThrownString s) = False"
| "isDomain (ThrownError n m) = False"

fun errorCode :: "thrown \<Rightarrow> string option" where
  "errorCode (ThrownObject d c m) = c"
| "errorCode (ThrownString s) = None"
| "errorCode (ThrownError n m) = None"

fun err_message :: "thrown \<Rightarrow> string option" where
  "err_message (ThrownObject d c m) = m"
| "err_message (ThrownString s) = None"
| "err_message (ThrownError n m) = Some m"

text \<open>
  \<open>err.toString()\<close>: a string is itself, an object literal is \<open>[object Object]\<close>, an
  \<open>Error\<close> is \<open>name: message\<close> (only the name, or only the message, when the other is
  empty).
\<close>

fun toString :: "thrown \<Rightarrow> string" where
  "toString (ThrownString s) = s"
| "toString (ThrownObject d c m) = ''[object Object]''"
| "toString (ThrownError n m) =
     (if n = [] then m else if m = [] then n else n @ '': '' @ m)"

definition getError :: "thrown \<Rightarrow> errorObj" where
  "getError err =
     (if isDomain err then
        (let statusType =
               (if errorCode err = Some ''NOT_FOUND'' then NOT_FOUND
                else if errorCode err = Some ''EXISTS'' then CONFLICT
                else BAD_REQUEST)
         in \<lparr>status = statusType, code = errorCode err, message = err_message err\<rparr>)
      else \<lparr>status = SERVER_ERROR, code = Some ''INTERNAL'', message = Some (toString err)\<rparr>)"

section \<open>Sequencing of asynchronous code\<close>

text \<open>
  An \<open>async\<close> method is a function from the state to the new state and a completion.
  \<open>await\<close> runs the rest only after a return; \<open>try_catch\<close> hands a thrown value to
  the handler, with the state as the throwing code left it.
\<close>

definition ret :: "'a \<Rightarrow> 's \<Rightarrow> 's \<times> 'a completion" where
  "ret x s = (s, Return x)"

definition throw :: "thrown \<Rightarrow> 's \<Rightarrow> 's \<times> 'a completion" where
  "throw e s = (s, Throw e)"

definition await ::
  "('s \<Rightarrow> 's \<times> 'a completion) \<Rightarrow> ('a \<Rightarrow> 's \<Rightarrow> 's \<times> 'b completion) \<Rightarrow> 's \<Rightarrow> 's \<times> 'b completion" where
  "await m f s =
     (case m s of
        (s', Return x) \<Rightarrow> f x s'
      | (s', Throw e) \<Rightarrow> (s', Throw e)
      | (s', ProcessExit) \<Rightarrow> (s', ProcessExit))"

definition try_catch ::
  "('s \<Rightarrow> 's \<times> 'a completion) \<Rightarrow> (thrown \<Rightarrow> 's \<Rightarrow> 's \<times> 'a completion) \<Rightarrow> 's \<Rightarrow> 's \<times> 'a completion" where
  "try_catch m h s =
     (case m s of
        (s', Throw e) \<Rightarrow> h e s'
      | (s', Return x) \<Rightarrow> (s', Return x)
      | (s', ProcessExit) \<Rightarrow> (s', ProcessExit))"

section \<open>The state: a GNCDatabase instance and what it talks to\<close>

text \<open>
  The \<open>_id\<close> of a stored document is an ObjectId: twelve bytes, of which four are the
  time of creation in seconds, five identify the machine and the process, and three are a
  counter. MongoDB compares ObjectIds byte by byte, which is the lexicographic order of
  the three parts; that is the order of the triple here.
\<close>

type_synonym objectId = "nat \<times> nat \<times> nat"

text \<open>A stored document \<open>{_id, sensorID, sensorValue, seqNum}\<close>.\<close>

datatype document =
  Document (doc_id: objectId) (doc_sensorID: string) (doc_sensorValue: string) (doc_seqNum: string)

text \<open>The object \<open>{sensorValue, seqNum}\<close> that the \<open>readLast\<close> methods return.\<close>

record returnObj =
  sensorValue :: string
  seqNum :: string

datatype logged = LogString string | LogThrown thrown

text \<open>
  The fields of the instance (\<open>databaseName\<close> to \<open>speedCollection\<close>; \<open>None\<close> is
  \<open>undefined\<close>), then what lies outside it: whether the MongoDB server answers, the
  collections it stores (by name, in the order \<open>listCollections\<close> gives), what the
  driver makes identifiers from, the console and the FileWriter's side log.
  \<open>mongoDBConnection = Some c\<close> is a MongoClient whose \<open>isConnected()\<close> is \<open>c\<close>; a
  collection handle is the collection's name.
  For the identifiers: \<open>clockAt s k\<close> is the system time in seconds that the making of
  the \<open>k\<close>-th identifier of this process reads (any function: the clock is not in the
  program's hands), \<open>generated\<close> counts the identifiers made so far, \<open>objectIdIndex\<close> is
  the driver's \<open>ObjectID.index\<close> (a random number when the module is loaded), and
  \<open>processUnique\<close> stands for the five bytes of machine and process.
\<close>

record state =
  databaseName :: string
  serverUrl :: string
  mongoDBConnection :: "bool option"
  databaseConnection :: "string option"
  tempCollection :: "string option"
  distCollection :: "string option"
  speedCollection :: "string option"
  serverOnline :: bool
  serverData :: "(string \<times> document list) list"
  clockAt :: "nat \<Rightarrow> nat"
  generated :: nat
  objectIdIndex :: nat
  processUnique :: nat
  console :: "logged list"
  fileLog :: "(string \<times> string \<times> string) list"

definition console_log :: "logged \<Rightarrow> state \<Rightarrow> state \<times> unit completion" where
  "console_log x s = (s\<lparr>console := console s @ [x]\<rparr>, Return ())"

subsection \<open>The MongoDB driver\<close>

text \<open>
  The driver is a library, not code of the repository; this is the part of its behaviour
  that the two files use. An operation needs an open client and a server that answers,
  otherwise its promise is rejected with a \<open>MongoError\<close>. \<open>insertOne\<close> into a collection
  that does not exist creates it; \<open>findOne\<close> there finds nothing; \<open>createCollection\<close> of
  an existing name gives the handle of the existing collection; \<open>dropCollection\<close> of a
  missing name is rejected; \<open>close\<close> resolves on an open and on a closed client alike.
\<close>

definition MongoError :: thrown where
  "MongoError = ThrownError ''MongoError'' ''topology was destroyed''"

definition driverUp :: "state \<Rightarrow> bool" where
  "driverUp s \<longleftrightarrow> mongoDBConnection s = Some True \<and> serverOnline s"

definition docsOf :: "state \<Rightarrow> string \<Rightarrow> document list" where
  "docsOf s c = (case map_of (serverData s) c of None \<Rightarrow> [] | Some ds \<Rightarrow> ds)"

definition mongo_connect :: "state \<Rightarrow> state \<times> bool completion" where
  "mongo_connect s =
     (if serverOnline s then (s, Return True)
      else (s, Throw (ThrownError ''MongoNetworkError'' ''failed to connect to server'')))"

definition mongo_close :: "state \<Rightarrow> state \<times> unit completion" where
  "mongo_close s = (s\<lparr>mongoDBConnection := Some False\<rparr>, Return ())"

definition db_createCollection :: "string \<Rightarrow> state \<Rightarrow> state \<times> string completion" where
  "db_createCollection name s =
     (if driverUp s then
        (if name \<in> set (map fst (serverData s)) then (s, Return name)
         else (s\<lparr>serverData := serverData s @ [(name, [])]\<rparr>, Return name))
      else (s, Throw MongoError))"

definition db_listCollections :: "state \<Rightarrow> state \<times> string list completion" where
  "db_listCollections s =
     (if driverUp s then (s, Return (map fst (serverData s))) else (s, Throw MongoError))"

definition db_dropCollection :: "string \<Rightarrow> state \<Rightarrow> state \<times> unit completion" where
  "db_dropCollection name s =
     (if driverUp s then
        (if name \<in> set (map fst (serverData s))
         then (s\<lparr>serverData := AList.delete name (serverData s)\<rparr>, Return ())
         else (s, Throw (ThrownError ''MongoError'' ''ns not found'')))
      else (s, Throw MongoError))"

text \<open>
  The document passed to \<open>insertOne\<close> has no \<open>_id\<close>, so the driver makes one
  (\<open>ObjectID.generate\<close>): the time is \<open>Date.now() / 1000\<close>, of which four bytes are kept;
  the counter is \<open>get_inc()\<close>, which sets \<open>ObjectID.index\<close> to \<open>(index + 1) % 0xffffff\<close> and
  returns it. \<open>idAt s j\<close> is the identifier of the \<open>j\<close>-th insert after state \<open>s\<close>, counted
  from 0; the next one is \<open>idAt s 0\<close>.
\<close>

definition idStamp :: "state \<Rightarrow> nat \<Rightarrow> nat" where
  "idStamp s j = clockAt s (generated s + j) mod 2 ^ 32"

definition idCounter :: "state \<Rightarrow> nat \<Rightarrow> nat" where
  "idCounter s j = (objectIdIndex s + j + 1) mod 16777215"

definition idAt :: "state \<Rightarrow> nat \<Rightarrow> objectId" where
  "idAt s j = (idStamp s j, processUnique s, idCounter s j)"

text \<open>
  The identifier is made before the document is sent, so an insert that the driver
  rejects uses one up as well (\<open>idUsed\<close>); \<open>stored\<close> is the state after an insert that the
  server took.
\<close>

definition idUsed :: "state \<Rightarrow> state" where
  "idUsed s =
     s\<lparr>generated := Suc (generated s), objectIdIndex := (objectIdIndex s + 1) mod 16777215\<rparr>"

definition stored :: "string \<Rightarrow> string \<Rightarrow> string \<Rightarrow> string \<Rightarrow> state \<Rightarrow> state" where
  "stored c sensorId v n s =
     (idUsed s)\<lparr>serverData :=
        AList.update c (docsOf s c @ [Document (idAt s 0) sensorId v n]) (serverData s)\<rparr>"

definition insertOne ::
  "string \<Rightarrow> string \<Rightarrow> string \<Rightarrow> string \<Rightarrow> state \<Rightarrow> state \<times> unit completion" where
  "insertOne c sid v n s =
     (if driverUp s then (stored c sid v n s, Return ())
      else (idUsed s, Throw MongoError))"

text \<open>
  \<open>findOne({sensorID: sid}, {sort: {_id: -1}, limit: 1})\<close>: of the documents with that
  \<open>sensorID\<close>, the one with the greatest \<open>_id\<close>; \<open>None\<close> is \<open>null\<close>.
\<close>

definition greatestId :: "document list \<Rightarrow> document option" where
  "greatestId ds =
     (case ds of [] \<Rightarrow> None
      | d # rest \<Rightarrow> Some (fold (\<lambda>x best. if doc_id best < doc_id x then x else best) rest d))"

definition findOne :: "string \<Rightarrow> string \<Rightarrow> state \<Rightarrow> state \<times> document option completion" where
  "findOne c sid s =
     (if driverUp s then (s, Return (greatestId (filter (\<lambda>d. doc_sensorID d = sid) (docsOf s c))))
      else (s, Throw MongoError))"

text \<open>Calling a method on a field that is \<open>undefined\<close> throws a TypeError.\<close>

definition onHandle ::
  "string option \<Rightarrow> string \<Rightarrow> (string \<Rightarrow> state \<Rightarrow> state \<times> 'a completion) \<Rightarrow> state \<Rightarrow> state \<times> 'a completion" where
  "onHandle h method f =
     (case h of
        None \<Rightarrow> throw (ThrownError ''TypeError'' (''Cannot read property '' @ method @ '' of undefined''))
      | Some c \<Rightarrow> f c)"

section \<open>pc\_database.js: the class GNCDatabase\<close>

text \<open>
  The source has one write method and one read method per metric, equal up to the
  collection field, the collection's label in the error message and the method's own
  name; \<open>writeMetric\<close> and \<open>readLastMetric\<close> are that common body.
\<close>

datatype metric = Temperature | Distance | Speed

fun collectionOf :: "metric \<Rightarrow> state \<Rightarrow> string option" where
  "collectionOf Temperature s = tempCollection s"
| "collectionOf Distance s = distCollection s"
| "collectionOf Speed s = speedCollection s"

fun collectionLabel :: "metric \<Rightarrow> string" where
  "collectionLabel Temperature = ''temperature''"
| "collectionLabel Distance = ''distance''"
| "collectionLabel Speed = ''speed''"

fun readName :: "metric \<Rightarrow> string" where
  "readName Temperature = ''readLastTemp''"
| "readName Distance = ''readLastDist''"
| "readName Speed = ''readLastSpeed''"

definition writeError :: "metric \<Rightarrow> state \<Rightarrow> thrown" where
  "writeError m s =
     ThrownString (''One or more errors in writing Database: '' @ databaseName s @
                   '' Collection: '' @ collectionLabel m)"

definition readError :: "metric \<Rightarrow> state \<Rightarrow> thrown" where
  "readError m s =
     ThrownString (''One or more errors in reading Database: '' @ databaseName s @
                   '' Collection: '' @ collectionLabel m)"

definition writeMetric ::
  "metric \<Rightarrow> string \<Rightarrow> string \<Rightarrow> string \<Rightarrow> state \<Rightarrow> state \<times> unit completion" where
  "writeMetric m sensorId sensorVal seq s =
     try_catch
       (onHandle (collectionOf m s) ''insertOne'' (\<lambda>c. insertOne c sensorId sensorVal seq))
       (\<lambda>err. await (console_log (LogThrown err)) (\<lambda>_ s'. throw (writeError m s') s'))
       s"

definition readLastMetric :: "metric \<Rightarrow> string \<Rightarrow> state \<Rightarrow> state \<times> returnObj completion" where
  "readLastMetric m sensorId s =
     try_catch
       (await (onHandle (collectionOf m s) ''findOne'' (\<lambda>c. findOne c sensorId))
          (\<lambda>document.
             case document of
               None \<Rightarrow>
                 throw (ThrownString (''No document satisfies the query - '' @ readName m @
                                      ''() sensorID '' @ sensorId))
             | Some d \<Rightarrow> ret \<lparr>sensorValue = doc_sensorValue d, seqNum = doc_seqNum d\<rparr>))
       (\<lambda>err. await (console_log (LogThrown err)) (\<lambda>_ s'. throw (readError m s') s'))
       s"

definition writeTemp :: "string \<Rightarrow> string \<Rightarrow> string \<Rightarrow> state \<Rightarrow> state \<times> unit completion" where
  "writeTemp = writeMetric Temperature"

definition readLastTemp :: "string \<Rightarrow> state \<Rightarrow> state \<times> returnObj completion" where
  "readLastTemp = readLastMetric Temperature"

definition writeDist :: "string \<Rightarrow> string \<Rightarrow> string \<Rightarrow> state \<Rightarrow> state \<times> unit completion" where
  "writeDist = writeMetric Distance"

definition readLastDist :: "string \<Rightarrow> state \<Rightarrow> state \<times> returnObj completion" where
  "readLastDist = readLastMetric Distance"

definition writeSpeed :: "string \<Rightarrow> string \<Rightarrow> string \<Rightarrow> state \<Rightarrow> state \<times> unit completion" where
  "writeSpeed = writeMetric Speed"

definition readLastSpeed :: "string \<Rightarrow> state \<Rightarrow> state \<times> returnObj completion" where
  "readLastSpeed = readLastMetric Speed"

definition createCollection :: "string \<Rightarrow> state \<Rightarrow> state \<times> string completion" where
  "createCollection collectionName s =
     onHandle (databaseConnection s) ''createCollection''
       (\<lambda>_. db_createCollection collectionName) s"

definition setField :: "(state \<Rightarrow> state) \<Rightarrow> state \<Rightarrow> state \<times> unit completion" where
  "setField f s = (f s, Return ())"

definition exit_process :: "state \<Rightarrow> state \<times> unit completion" where
  "exit_process s = (s, ProcessExit)"

text \<open>
  \<open>init\<close> in the three parts of its source text: the connection (lines 20 to 34), the
  collections (36 to 38) and the default readings (40 to 53).
\<close>

definition init_connect :: "state \<Rightarrow> state \<times> unit completion" where
  "init_connect =
     await (try_catch
              (await mongo_connect (\<lambda>client. setField (\<lambda>s. s\<lparr>mongoDBConnection := Some client\<rparr>)))
              (\<lambda>err. await (console_log (LogString
                         ((case err_message err of Some m \<Rightarrow> m | None \<Rightarrow> ''undefined'') @ [CHR 0x0A] @
                          ''Database FAILED to connect, check if server is online or port is correct'')))
                       (\<lambda>_. exit_process)))
    (\<lambda>_. await (\<lambda>s. if mongoDBConnection s \<noteq> None then ret () s
                      else throw (ThrownError ''AssertionError'' ''false == true'') s)
    (\<lambda>_. await (\<lambda>s. if mongoDBConnection s = Some True
                      then console_log (LogString ''Database Connected'') s
                      else await (console_log (LogString ''Database NOT Connected''))
                             (\<lambda>_. exit_process) s)
    (\<lambda>_. setField (\<lambda>s. s\<lparr>databaseConnection := Some (databaseName s)\<rparr>))))"

definition init_collections :: "state \<Rightarrow> state \<times> unit completion" where
  "init_collections =
     await (createCollection ''Temperature'')
    (\<lambda>c. await (setField (\<lambda>s. s\<lparr>tempCollection := Some c\<rparr>))
    (\<lambda>_. await (createCollection ''Distance'')
    (\<lambda>c. await (setField (\<lambda>s. s\<lparr>distCollection := Some c\<rparr>))
    (\<lambda>_. await (createCollection ''Speed'')
    (\<lambda>c. setField (\<lambda>s. s\<lparr>speedCollection := Some c\<rparr>))))))"

definition init_defaults :: "state \<Rightarrow> state \<times> unit completion" where
  "init_defaults =
     await (writeTemp ''1'' ''-1'' ''0'')
    (\<lambda>_. await (writeTemp ''2'' ''-1'' ''0'')
    (\<lambda>_. await (writeTemp ''3'' ''-1'' ''0'')
    (\<lambda>_. await (writeTemp ''4'' ''-1'' ''0'')
    (\<lambda>_. await (writeDist ''1'' ''-1'' ''0'')
    (\<lambda>_. await (writeDist ''2'' ''-1'' ''0'')
    (\<lambda>_. await (writeDist ''3'' ''-1'' ''0'')
    (\<lambda>_. await (writeDist ''4'' ''-1'' ''0'')
    (\<lambda>_. await (writeSpeed ''1'' ''-1'' ''0'')
    (\<lambda>_. await (writeSpeed ''2'' ''-1'' ''0'')
    (\<lambda>_. await (writeSpeed ''3'' ''-1'' ''0'')
    (\<lambda>_. writeSpeed ''4'' ''-1'' ''0'')))))))))))"

definition init :: "state \<Rightarrow> state \<times> unit completion" where
  "init = await init_connect (\<lambda>_. await init_collections (\<lambda>_. init_defaults))"

definition close :: "state \<Rightarrow> state \<times> unit completion" where
  "close =
     await (\<lambda>s. if mongoDBConnection s \<noteq> None then mongo_close s else ret () s)
       (\<lambda>_. console_log (LogString ''MongoDB connection closed''))"

text \<open>
  The loop of \<open>clear\<close> walks the entries \<open>[index, name]\<close> of the collection names; an
  entry is an array, so the loop's condition holds until the iterator is done.
\<close>

fun dropEach :: "(nat \<times> string) list \<Rightarrow> state \<Rightarrow> state \<times> unit completion" where
  "dropEach [] s = (s, Return ())"
| "dropEach (collectionEntry # rest) s =
     await (onHandle (databaseConnection s) ''dropCollection''
              (\<lambda>_. db_dropCollection (snd collectionEntry)))
       (\<lambda>_ s'. dropEach rest s') s"

definition clear :: "state \<Rightarrow> state \<times> unit completion" where
  "clear s =
     (if databaseConnection s \<noteq> None then
        await (onHandle (databaseConnection s) ''listCollections'' (\<lambda>_. db_listCollections))
          (\<lambda>collectionArray. dropEach (enumerate 0 collectionArray)) s
      else (s, Return ()))"

subsection \<open>The constructor and its two regular expressions\<close>

text \<open>
  \<open>REG_DATABASE_NAME = /\/(\w+)$/g\<close> and \<open>REG_SERVER_URL = /(^.*)\//g\<close> are module-level
  objects with the global flag: \<open>exec\<close> starts the search at the object's \<open>lastIndex\<close>,
  sets \<open>lastIndex\<close> to the end of the match when it finds one, and sets it to 0 and
  returns \<open>null\<close> when it finds none. The two \<open>lastIndex\<close> values are the state that
  the constructor reads and writes. A connection string is a list of bytes here, which is
  the JavaScript string when it is ASCII.
\<close>

record regexState =
  REG_DATABASE_NAME_lastIndex :: nat
  REG_SERVER_URL_lastIndex :: nat

definition isWordChar :: "char \<Rightarrow> bool" where
  "isWordChar c \<longleftrightarrow>
     (let k = (of_char c :: nat)
      in (48 \<le> k \<and> k \<le> 57) \<or> (65 \<le> k \<and> k \<le> 90) \<or> (97 \<le> k \<and> k \<le> 122) \<or> k = 95)"

definition isLineTerminator :: "char \<Rightarrow> bool" where
  "isLineTerminator c \<longleftrightarrow> (of_char c :: nat) = 10 \<or> (of_char c :: nat) = 13"

text \<open>
  A match of \<open>\/(\w+)$\<close> that starts at \<open>p\<close>: a slash at \<open>p\<close>, then one or more word
  characters up to the end of the input. The result is the group and the match's end.
\<close>

definition matchDatabaseName :: "string \<Rightarrow> nat \<Rightarrow> (string \<times> nat) option" where
  "matchDatabaseName str p =
     (if p < length str \<and> str ! p = CHR ''/'' \<and> drop (Suc p) str \<noteq> [] \<and>
         list_all isWordChar (drop (Suc p) str)
      then Some (drop (Suc p) str, length str) else None)"

text \<open>
  A match of \<open>(^.*)\/\<close> that starts at \<open>p\<close>: \<open>^\<close> holds at 0 only; the greedy \<open>.*\<close>
  gives back characters until a slash follows, so the slash is the last one that has no
  line terminator before it.
\<close>

definition matchServerUrl :: "string \<Rightarrow> nat \<Rightarrow> (string \<times> nat) option" where
  "matchServerUrl str p =
     (if p = 0 then
        (case filter (\<lambda>q. str ! q = CHR ''/'' \<and> \<not> list_ex isLineTerminator (take q str))
                (rev [0..<length str]) of
           [] \<Rightarrow> None
         | q # _ \<Rightarrow> Some (take q str, Suc q))
      else None)"

text \<open>\<open>exec\<close> of a global regular expression: the new \<open>lastIndex\<close> and the group.\<close>

definition regexExec ::
  "(string \<Rightarrow> nat \<Rightarrow> (string \<times> nat) option) \<Rightarrow> string \<Rightarrow> nat \<Rightarrow> nat \<times> string option" where
  "regexExec matchAt str lastIndex =
     (case List.find (\<lambda>p. matchAt str p \<noteq> None) [lastIndex..<Suc (length str)] of
        None \<Rightarrow> (0, None)
      | Some p \<Rightarrow> (case matchAt str p of
                     None \<Rightarrow> (0, None)
                   | Some (captured, e) \<Rightarrow> (e, Some captured)))"

definition notIterable :: thrown where
  "notIterable = ThrownError ''TypeError'' ''object null is not iterable''"

text \<open>
  The constructor: the two fields it sets, or the TypeError of destructuring \<open>null\<close>.
\<close>

definition GNCDatabase ::
  "string \<Rightarrow> regexState \<Rightarrow> regexState \<times> (string \<times> string) completion" where
  "GNCDatabase dbUrl r =
     (case regexExec matchDatabaseName dbUrl (REG_DATABASE_NAME_lastIndex r) of
        (i, None) \<Rightarrow> (r\<lparr>REG_DATABASE_NAME_lastIndex := i\<rparr>, Throw notIterable)
      | (i, Some dbName) \<Rightarrow>
          (let r1 = r\<lparr>REG_DATABASE_NAME_lastIndex := i\<rparr>
           in case regexExec matchServerUrl dbUrl (REG_SERVER_URL_lastIndex r1) of
                (j, None) \<Rightarrow> (r1\<lparr>REG_SERVER_URL_lastIndex := j\<rparr>, Throw notIterable)
              | (j, Some srvUrl) \<Rightarrow> (r1\<lparr>REG_SERVER_URL_lastIndex := j\<rparr>, Return (dbName, srvUrl))))"

text \<open>The state when the module is loaded: both \<open>lastIndex\<close> are 0.\<close>

definition moduleLoaded :: regexState where
  "moduleLoaded = \<lparr>REG_DATABASE_NAME_lastIndex = 0, REG_SERVER_URL_lastIndex = 0\<rparr>"

section \<open>pc\_server.js: the routes\<close>

text \<open>
  Of a request, the routes read the path parameter \<open>sensorId\<close> and the query parameters.
  A parameter is a string or is missing; a repeated or bracketed query parameter, which
  the query parser turns into an array or an object, is not modelled. The response is the
  status code and the body that the handler sends.
\<close>

record request =
  params_sensorId :: "string option"
  query :: "string \<Rightarrow> string option"

datatype resBody =
    JsonReturnObj returnObj
  | JsonURL string
  | JsonError errorObj
  | JsonInvalid
  | JsonServerError "string option"
  | Send string

record response =
  statusCode :: nat
  body :: resBody

fun routeName :: "metric \<Rightarrow> string" where
  "routeName Temperature = ''temp''"
| "routeName Distance = ''dist''"
| "routeName Speed = ''speed''"

text \<open>
  Modelled from the spec: the FileWriter collaborator (\<open>app.locals.processor\<close>), whose
  code is not in the two files. Its \<open>writeFile(metric, sensorId, value)\<close> is "a simple
  append" to a side log.
\<close>

definition processor_writeFile ::
  "string \<Rightarrow> string \<Rightarrow> string \<Rightarrow> state \<Rightarrow> state \<times> unit completion" where
  "processor_writeFile name sensorId val s =
     (s\<lparr>fileLog := fileLog s @ [(name, sensorId, val)]\<rparr>, Return ())"

text \<open>The \<open>catch\<close> block of the metric routes.\<close>

definition respondError :: "thrown \<Rightarrow> state \<Rightarrow> state \<times> response completion" where
  "respondError err =
     (let statusReport = getError err
      in ret \<lparr>statusCode = status statusReport, body = JsonError statusReport\<rparr>)"

definition doErrors :: "thrown \<Rightarrow> state \<Rightarrow> state \<times> response completion" where
  "doErrors err =
     (case err of
        ThrownError name m \<Rightarrow>
          (if name = ''SyntaxError'' then ret \<lparr>statusCode = BAD_REQUEST, body = JsonInvalid\<rparr>
           else await (console_log (LogThrown err))
                  (\<lambda>_. ret \<lparr>statusCode = SERVER_ERROR, body = JsonServerError (err_message err)\<rparr>))
      | _ \<Rightarrow> await (console_log (LogThrown err))
               (\<lambda>_. ret \<lparr>statusCode = SERVER_ERROR, body = JsonServerError (err_message err)\<rparr>))"

definition errorWrap ::
  "(state \<Rightarrow> state \<times> response completion) \<Rightarrow> state \<Rightarrow> state \<times> response completion" where
  "errorWrap handler = try_catch handler doErrors"

definition badRequest :: "string \<Rightarrow> thrown" where
  "badRequest example =
     ThrownObject True (Some ''BAD_REQUEST'') (Some (''Incorrect url, try like > '' @ example))"

definition getMetric :: "metric \<Rightarrow> request \<Rightarrow> state \<Rightarrow> state \<times> response completion" where
  "getMetric m req =
     errorWrap (try_catch
       (case params_sensorId req of
          None \<Rightarrow> throw (badRequest (''/'' @ routeName m @ ''/1''))
        | Some sensorId \<Rightarrow>
            if length sensorId = 0 then throw (badRequest (''/'' @ routeName m @ ''/1''))
            else await (readLastMetric m sensorId)
                   (\<lambda>returnObj. ret \<lparr>statusCode = OK, body = JsonReturnObj returnObj\<rparr>))
       respondError)"

text \<open>
  A query parameter is \<open>absent\<close> when it is \<open>undefined\<close> or has length 0. In \<open>setMetric\<close>
  the destructuring after the check reads three parameters that are present; the last
  case of the model is never taken.
\<close>

definition absent :: "string option \<Rightarrow> bool" where
  "absent x = (case x of None \<Rightarrow> True | Some v \<Rightarrow> length v = 0)"

definition setMetric :: "metric \<Rightarrow> request \<Rightarrow> state \<Rightarrow> state \<times> response completion" where
  "setMetric m req =
     errorWrap (try_catch
       (if absent (query req ''sensorId'') \<or> absent (query req ''value'') \<or>
           absent (query req ''seqNum'')
        then throw (badRequest (''/'' @ routeName m @ ''?sensorId=1&value=26&seqNum=0''))
        else
          (case (query req ''sensorId'', query req ''value'', query req ''seqNum'') of
             (Some sensorId, Some val, Some seq) \<Rightarrow>
               await (processor_writeFile (routeName m) sensorId val)
              (\<lambda>_. await (writeMetric m sensorId val seq)
              (\<lambda>_. ret \<lparr>statusCode = CREATED,
                         body = JsonURL (''/'' @ routeName m @ ''?sensorId='' @ sensorId @
                                         ''&value='' @ val @ ''&seqNum='' @ seq)\<rparr>))
           | _ \<Rightarrow> throw (badRequest (''/'' @ routeName m @ ''?sensorId=1&value=26&seqNum=0''))))
       respondError)"

definition getTemp :: "request \<Rightarrow> state \<Rightarrow> state \<times> response completion" where
  "getTemp = getMetric Temperature"

definition setTemp :: "request \<Rightarrow> state \<Rightarrow> state \<times> response completion" where
  "setTemp = setMetric Temperature"

definition getDist :: "request \<Rightarrow> state \<Rightarrow> state \<times> response completion" where
  "getDist = getMetric Distance"

definition setDist :: "request \<Rightarrow> state \<Rightarrow> state \<times> response completion" where
  "setDist = setMetric Distance"

definition getSpeed :: "request \<Rightarrow> state \<Rightarrow> state \<times> response completion" where
  "getSpeed = getMetric Speed"

definition setSpeed :: "request \<Rightarrow> state \<Rightarrow> state \<times> response completion" where
  "setSpeed = setMetric Speed"

text \<open>
  \<open>app.locals.pcDatabase.name()\<close>: a call by name on the GNCDatabase instance. The class
  defines \<open>init\<close>, \<open>close\<close> and \<open>clear\<close> without parameters; a name that is no member of
  the instance is \<open>undefined\<close>, and calling it throws a TypeError. (The members with
  parameters are called directly above and are not looked up here.)
\<close>

definition pcDatabase_call :: "string \<Rightarrow> state \<Rightarrow> state \<times> unit completion" where
  "pcDatabase_call name =
     (if name = ''init'' then init
      else if name = ''close'' then close
      else if name = ''clear'' then clear
      else throw (ThrownError ''TypeError''
                    (''app.locals.pcDatabase.'' @ name @ '' is not a function'')))"

definition closeDatabase :: "request \<Rightarrow> state \<Rightarrow> state \<times> response completion" where
  "closeDatabase req =
     errorWrap (try_catch
       (await (pcDatabase_call ''close'') (\<lambda>_. ret \<lparr>statusCode = OK, body = Send ''GOOD''\<rparr>))
       (\<lambda>err. await (console_log (LogThrown err))
                 (\<lambda>_. ret \<lparr>statusCode = OK, body = Send ''BAD''\<rparr>)))"

definition clearDatabase :: "request \<Rightarrow> state \<Rightarrow> state \<times> response completion" where
  "clearDatabase req =
     errorWrap (try_catch
       (await (pcDatabase_call ''clearDatabase'') (\<lambda>_. ret \<lparr>statusCode = OK, body = Send ''GOOD''\<rparr>))
       (\<lambda>err. await (console_log (LogThrown err))
                 (\<lambda>_. ret \<lparr>statusCode = OK, body = Send ''BAD''\<rparr>)))"

section \<open>Notions used to state the properties\<close>

text \<open>
  Every stored document of collection \<open>c\<close> has an \<open>_id\<close> below the next one that the
  driver makes.
\<close>

definition idsBelow :: "state \<Rightarrow> string \<Rightarrow> bool" where
  "idsBelow s c = list_all (\<lambda>d. doc_id d < idAt s 0) (docsOf s c)"

text \<open>
  The next \<open>n\<close> identifiers come in increasing order: each one is made in a later second
  than the one before it, or in the same second with a greater counter.
\<close>

definition inOrder :: "state \<Rightarrow> nat \<Rightarrow> bool" where
  "inOrder s n =
     list_all (\<lambda>j. idStamp s j < idStamp s (j + 1) \<or>
                   (idStamp s j = idStamp s (j + 1) \<and> idCounter s j < idCounter s (j + 1)))
              [0..<n - 1]"

text \<open>The document that a \<open>findOne\<close> through the metric's handle finds for a sensor.\<close>

definition latestIn :: "metric \<Rightarrow> string \<Rightarrow> state \<Rightarrow> document option" where
  "latestIn m sensorId s =
     (case collectionOf m s of
        None \<Rightarrow> None
      | Some c \<Rightarrow> greatestId (filter (\<lambda>d. doc_sensorID d = sensorId) (docsOf s c)))"

text \<open>
  A client that appends the readings \<open>rs\<close> (value and sequence number) for one sensor of
  one metric, one after the other, and stops at the first append that throws.
\<close>

fun appendAll ::
  "metric \<Rightarrow> string \<Rightarrow> (string \<times> string) list \<Rightarrow> state \<Rightarrow> state \<times> unit completion" where
  "appendAll m sensorId [] s = (s, Return ())"
| "appendAll m sensorId (r # rs) s =
     await (writeMetric m sensorId (fst r) (snd r)) (\<lambda>_ s'. appendAll m sensorId rs s') s"

text \<open>
  The four default readings, as inserts number \<open>k\<close> to \<open>k + 3\<close> after state \<open>s\<close> store
  them.
\<close>

definition defaultReadings :: "state \<Rightarrow> nat \<Rightarrow> document list" where
  "defaultReadings s k =
     [Document (idAt s k) ''1'' ''-1'' ''0'', Document (idAt s (k + 1)) ''2'' ''-1'' ''0'',
      Document (idAt s (k + 2)) ''3'' ''-1'' ''0'', Document (idAt s (k + 3)) ''4'' ''-1'' ''0'']"

text \<open>
  Two concrete states: a new instance for \<open>mongodb://localhost:27017/gnc\<close> in front of
  an empty database, and the same instance after \<open>init\<close>. The clock stands at one second,
  and \<open>ObjectID.index\<close> started at 0.
\<close>

definition exampleNew :: state where
  "exampleNew =
     \<lparr>databaseName = ''gnc'', serverUrl = ''mongodb://localhost:27017'',
      mongoDBConnection = None, databaseConnection = None, tempCollection = None,
      distCollection = None, speedCollection = None, serverOnline = True, serverData = [],
      clockAt = (\<lambda>k. 1700000000), generated = 0, objectIdIndex = 0, processUnique = 1,
      console = [], fileLog = []\<rparr>"

definition exampleSeeded :: state where
  "exampleSeeded =
     \<lparr>databaseName = ''gnc'', serverUrl = ''mongodb://localhost:27017'',
      mongoDBConnection = Some True, databaseConnection = Some ''gnc'',
      tempCollection = Some ''Temperature'', distCollection = Some ''Distance'',
      speedCollection = Some ''Speed'', serverOnline = True,
      serverData =
        [(''Temperature'', defaultReadings exampleNew 0),
         (''Distance'', defaultReadings exampleNew 4),
         (''Speed'', defaultReadings exampleNew 8)],
      clockAt = (\<lambda>k. 1700000000), generated = 12, objectIdIndex = 12, processUnique = 1,
      console = [LogString ''Database Connected''], fileLog = []\<rparr>"

text \<open>
  A third one: a new instance whose \<open>ObjectID.index\<close> started at 16777201, with a clock
  that stands at one second for the twelve inserts of \<open>init\<close> and at one later second
  from then on.
\<close>

definition exampleWrap :: state where
  "exampleWrap =
     exampleNew\<lparr>clockAt := (\<lambda>k. if k < 12 then 1700000000 else 1700000060),
                objectIdIndex := 16777201\<rparr>"

definition exampleRequest :: request where
  "exampleRequest = \<lparr>params_sensorId = None, query = Map.empty\<rparr>"

text \<open>
  The state after a successful \<open>createCollection\<close>, and with the three collection fields
  as \<open>init\<close> sets them.
\<close>

definition created :: "string \<Rightarrow> state \<Rightarrow> state" where
  "created name s =
     (if name \<in> set (map fst (serverData s)) then s
      else s\<lparr>serverData := serverData s @ [(name, [])]\<rparr>)"

definition withHandles :: "state \<Rightarrow> state" where
  "withHandles s =
     s\<lparr>tempCollection := Some ''Temperature'', distCollection := Some ''Distance'',
       speedCollection := Some ''Speed''\<rparr>"

section \<open>The error mapping\<close>

text \<open>
  C7. For every thrown value \<open>err\<close>, \<open>getError\<close> answers: when \<open>err\<close> is a domain error,
  status 404 for the code \<open>NOT_FOUND\<close>, 409 for \<open>EXISTS\<close> and 400 for every other code
  (\<open>BAD_REQUEST\<close> of a missing parameter included), with the error's own code and message;
  when \<open>err\<close> is not a domain error, status 500 with the code \<open>INTERNAL\<close>.
\<close>

theorem getError_mapping:
  "getError err =
     (if isDomain err then
        \<lparr>status = (if errorCode err = Some ''NOT_FOUND'' then 404
                   else if errorCode err = Some ''EXISTS'' then 409 else 400),
         code = errorCode err, message = err_message err\<rparr>
      else \<lparr>status = 500, code = Some ''INTERNAL'', message = Some (toString err)\<rparr>)"
  by (simp add: getError_def NOT_FOUND_def CONFLICT_def BAD_REQUEST_def SERVER_ERROR_def)

section \<open>Sequencing and driver lemmas\<close>

lemmas monad_defs =
  await_def try_catch_def ret_def throw_def console_log_def setField_def exit_process_def

lemma idCounter_next:
  "((objectIdIndex s + 1) mod 16777215 + j + 1) mod 16777215 = idCounter s (j + 1)"
proof -
  have "((objectIdIndex s + 1) mod 16777215 + (j + 1)) mod 16777215 =
          ((objectIdIndex s + 1) + (j + 1)) mod 16777215"
    by (rule mod_add_left_eq)
  then show ?thesis
    by (simp add: idCounter_def add.commute add.left_commute)
qed

lemma idAt_idUsed:
  "idAt (idUsed s) j = idAt s (j + 1)"
proof -
  have "idCounter (idUsed s) j = idCounter s (j + 1)"
    using idCounter_next[of s j] by (simp add: idCounter_def idUsed_def)
  moreover have "idStamp (idUsed s) j = idStamp s (j + 1)"
    by (simp add: idStamp_def idUsed_def)
  ultimately show ?thesis
    by (simp add: idAt_def idUsed_def)
qed

lemma idUsed_fields [simp]:
  "driverUp (idUsed s) = driverUp s"
  "docsOf (idUsed s) c = docsOf s c"
  "serverData (idUsed s) = serverData s"
  "databaseName (idUsed s) = databaseName s"
  "databaseConnection (idUsed s) = databaseConnection s"
  "tempCollection (idUsed s) = tempCollection s"
  "distCollection (idUsed s) = distCollection s"
  "speedCollection (idUsed s) = speedCollection s"
  by (simp_all add: idUsed_def driverUp_def docsOf_def)

lemma stored_fields [simp]:
  "driverUp (stored c sid v n s) = driverUp s"
  "collectionOf m (stored c sid v n s) = collectionOf m s"
  "databaseName (stored c sid v n s) = databaseName s"
  "databaseConnection (stored c sid v n s) = databaseConnection s"
  "tempCollection (stored c sid v n s) = tempCollection s"
  "distCollection (stored c sid v n s) = distCollection s"
  "speedCollection (stored c sid v n s) = speedCollection s"
  "idAt (stored c sid v n s) j = idAt s (j + 1)"
  "docsOf (stored c sid v n s) c' =
     (if c' = c then docsOf s c @ [Document (idAt s 0) sid v n] else docsOf s c')"
proof -
  have e: "stored c sid v n s =
      (idUsed s)\<lparr>serverData :=
        AList.update c (docsOf s c @ [Document (idAt s 0) sid v n]) (serverData s)\<rparr>"
    by (simp add: stored_def)
  show "driverUp (stored c sid v n s) = driverUp s"
    using idUsed_fields(1)[of s] by (simp add: e driverUp_def)
  show "collectionOf m (stored c sid v n s) = collectionOf m s"
    by (cases m) (simp_all add: e)
  show "databaseName (stored c sid v n s) = databaseName s"
    by (simp add: e)
  show "databaseConnection (stored c sid v n s) = databaseConnection s"
    by (simp add: e)
  show "tempCollection (stored c sid v n s) = tempCollection s"
    by (simp add: e)
  show "distCollection (stored c sid v n s) = distCollection s"
    by (simp add: e)
  show "speedCollection (stored c sid v n s) = speedCollection s"
    by (simp add: e)
  show "idAt (stored c sid v n s) j = idAt s (j + 1)"
    using idAt_idUsed[of s j] by (simp add: e idAt_def idStamp_def idCounter_def)
  show "docsOf (stored c sid v n s) c' =
     (if c' = c then docsOf s c @ [Document (idAt s 0) sid v n] else docsOf s c')"
    by (simp add: e docsOf_def update_conv')
qed

lemma fold_pick_mem:
  "fold (\<lambda>x best. if doc_id best < doc_id x then x else best) ds d \<in> set (d # ds)"
  by (induction ds arbitrary: d) auto

lemma greatestId_snoc:
  assumes "list_all (\<lambda>d. doc_id d < doc_id x) ds"
  shows "greatestId (ds @ [x]) = Some x"
proof (cases ds)
  case Nil
  then show ?thesis by (simp add: greatestId_def)
next
  case (Cons d rest)
  have "fold (\<lambda>x best. if doc_id best < doc_id x then x else best) rest d \<in> set ds"
    using fold_pick_mem[of rest d] Cons by simp
  with assms
  have "doc_id (fold (\<lambda>x best. if doc_id best < doc_id x then x else best) rest d) < doc_id x"
    by (simp add: list_all_iff)
  with Cons show ?thesis by (simp add: greatestId_def)
qed

text \<open>
  What a read method does, in full: the latest document's two fields when the driver
  works and finds one, and in every other case the same thrown string, after logging the
  cause.
\<close>

lemma readLastMetric_result:
  "readLastMetric m sensorId s =
     (if driverUp s then
        (case latestIn m sensorId s of
           Some d \<Rightarrow> (s, Return \<lparr>sensorValue = doc_sensorValue d, seqNum = doc_seqNum d\<rparr>)
         | None \<Rightarrow>
             (s\<lparr>console := console s @
                  [LogThrown (case collectionOf m s of
                      None \<Rightarrow> ThrownError ''TypeError'' ''Cannot read property findOne of undefined''
                    | Some c \<Rightarrow> ThrownString (''No document satisfies the query - '' @ readName m @
                                      ''() sensorID '' @ sensorId))]\<rparr>,
              Throw (readError m s)))
      else
        (s\<lparr>console := console s @
             [LogThrown (case collectionOf m s of
                  None \<Rightarrow> ThrownError ''TypeError'' ''Cannot read property findOne of undefined''
                | Some c \<Rightarrow> MongoError)]\<rparr>,
         Throw (readError m s)))"
  by (simp add: readLastMetric_def latestIn_def onHandle_def findOne_def monad_defs readError_def
           split: option.splits)

lemma stored_keys [simp]:
  "set (map fst (serverData (stored c sid v n s))) = insert c (set (map fst (serverData s)))"
  by (simp add: stored_def update_keys) auto

lemma created_fields [simp]:
  "driverUp (created name s) = driverUp s"
  "idAt (created name s) j = idAt s j"
  "databaseName (created name s) = databaseName s"
  "databaseConnection (created name s) = databaseConnection s"
  "docsOf (created name s) c = docsOf s c"
  by (auto simp add: created_def driverUp_def docsOf_def map_add_def idAt_def idStamp_def
           idCounter_def split: option.splits dest!: map_of_SomeD intro: rev_image_eqI)

lemma created_keys [simp]:
  "set (map fst (serverData (created name s))) = insert name (set (map fst (serverData s)))"
  by (auto simp add: created_def)

lemma writeMetric_stored:
  "driverUp s \<Longrightarrow> collectionOf m s = Some c \<Longrightarrow>
   writeMetric m sensorId v n s = (stored c sensorId v n s, Return ())"
  by (simp add: writeMetric_def onHandle_def insertOne_def monad_defs)

lemma createCollection_created:
  "driverUp s \<Longrightarrow> databaseConnection s \<noteq> None \<Longrightarrow>
   createCollection name s = (created name s, Return name)"
  by (cases "name \<in> set (map fst (serverData s))")
     (auto simp add: createCollection_def onHandle_def db_createCollection_def created_def
           simp del: set_map)

lemma withHandles_fields [simp]:
  "driverUp (withHandles s) = driverUp s"
  "collectionOf Temperature (withHandles s) = Some ''Temperature''"
  "collectionOf Distance (withHandles s) = Some ''Distance''"
  "collectionOf Speed (withHandles s) = Some ''Speed''"
  "idAt (withHandles s) j = idAt s j"
  "databaseConnection (withHandles s) = databaseConnection s"
  "databaseName (withHandles s) = databaseName s"
  "docsOf (withHandles s) c = docsOf s c"
  "serverData (withHandles s) = serverData s"
  "tempCollection (withHandles s) = Some ''Temperature''"
  "distCollection (withHandles s) = Some ''Distance''"
  "speedCollection (withHandles s) = Some ''Speed''"
  by (simp_all add: withHandles_def driverUp_def docsOf_def idAt_def idStamp_def idCounter_def)

lemma created_handles [simp]:
  "created name (s\<lparr>tempCollection := x\<rparr>) = (created name s)\<lparr>tempCollection := x\<rparr>"
  "created name (s\<lparr>distCollection := x\<rparr>) = (created name s)\<lparr>distCollection := x\<rparr>"
  "created name (s\<lparr>speedCollection := x\<rparr>) = (created name s)\<lparr>speedCollection := x\<rparr>"
  by (simp_all add: created_def)

lemma driverUp_handles [simp]:
  "driverUp (s\<lparr>tempCollection := x\<rparr>) = driverUp s"
  "driverUp (s\<lparr>distCollection := x\<rparr>) = driverUp s"
  "driverUp (s\<lparr>speedCollection := x\<rparr>) = driverUp s"
  by (simp_all add: driverUp_def)

lemma docsOf_connected [simp]:
  "docsOf (s\<lparr>mongoDBConnection := a, databaseConnection := b, console := l\<rparr>) c = docsOf s c"
  "idAt (s\<lparr>mongoDBConnection := a, databaseConnection := b, console := l\<rparr>) j = idAt s j"
  by (simp_all add: docsOf_def idAt_def idStamp_def idCounter_def)

section \<open>The latest reading and the last append\<close>

text \<open>
  A read returns the reading with the greatest \<open>_id\<close> among those of its sensor.
\<close>

lemma fold_pick_greatest:
  "\<forall>x \<in> set (d # ds).
     doc_id x \<le> doc_id (fold (\<lambda>x best. if doc_id best < doc_id x then x else best) ds d)"
proof (induction ds arbitrary: d)
  case Nil
  then show ?case by simp
next
  case (Cons y ys)
  let ?d' = "if doc_id d < doc_id y then y else d"
  from Cons.IH[of ?d'] show ?case
    by (auto split: if_splits intro: order_trans less_imp_le)
qed

lemma greatestId_greatest:
  assumes "greatestId ds = Some d"
  shows "d \<in> set ds \<and> (\<forall>x \<in> set ds. doc_id x \<le> doc_id d)"
proof (cases ds)
  case Nil
  with assms show ?thesis by (simp add: greatestId_def)
next
  case (Cons d0 rest)
  with assms have d: "d = fold (\<lambda>x best. if doc_id best < doc_id x then x else best) rest d0"
    by (simp add: greatestId_def)
  from fold_pick_mem[of rest d0] fold_pick_greatest[of d0 rest] show ?thesis
    unfolding d Cons by blast
qed

lemma inOrder_iff:
  "inOrder s n \<longleftrightarrow> (\<forall>j. j + 1 < n \<longrightarrow> idAt s j < idAt s (j + 1))"
proof -
  have "\<And>j. j \<in> set [0..<n - 1] \<longleftrightarrow> j + 1 < n"
    by auto
  then show ?thesis
    by (auto simp add: inOrder_def list_all_iff idAt_def)
qed

text \<open>
  The identifiers are in order when the clock does not step back nor pass the four bytes
  of the time stamp, and the counter does not reach \<open>0xffffff\<close>.
\<close>

lemma inOrder_no_wrap:
  assumes "\<forall>j. j + 1 < n \<longrightarrow> clockAt s (generated s + j) \<le> clockAt s (generated s + (j + 1))"
    and "\<forall>j < n. clockAt s (generated s + j) < 2 ^ 32"
    and "objectIdIndex s + n < 16777215"
  shows "inOrder s n"
proof -
  have "idStamp s j \<le> idStamp s (j + 1) \<and> idCounter s j < idCounter s (j + 1)"
    if "j + 1 < n" for j
  proof -
    from that assms(2)[rule_format, of j] assms(2)[rule_format, of "j + 1"]
    have "clockAt s (generated s + j) < 2 ^ 32"
      and "clockAt s (generated s + (j + 1)) < 2 ^ 32"
      by simp_all
    with assms(1) that have "idStamp s j \<le> idStamp s (j + 1)"
      by (simp add: idStamp_def)
    moreover from that assms(3) have "idCounter s j < idCounter s (j + 1)"
      by (simp add: idCounter_def)
    ultimately show ?thesis by simp
  qed
  then show ?thesis
    by (auto simp add: inOrder_iff idAt_def)
qed

lemma write_then_latest:
  assumes "driverUp s" and "collectionOf m s = Some c" and "idsBelow s c"
  shows "latestIn m sensorId (fst (writeMetric m sensorId v n s)) =
           Some (Document (idAt s 0) sensorId v n)"
proof -
  have "list_all (\<lambda>d. doc_id d < doc_id (Document (idAt s 0) sensorId v n))
          (filter (\<lambda>d. doc_sensorID d = sensorId) (docsOf s c))"
    using assms(3) by (simp add: idsBelow_def list_all_iff)
  then have "greatestId (filter (\<lambda>d. doc_sensorID d = sensorId) (docsOf s c) @
                          [Document (idAt s 0) sensorId v n])
               = Some (Document (idAt s 0) sensorId v n)"
    by (rule greatestId_snoc)
  then show ?thesis
    using assms by (simp add: writeMetric_stored latestIn_def)
qed

lemma idsBelow_stored:
  assumes "idsBelow s c" and "idAt s 0 < idAt s 1"
  shows "idsBelow (stored c sensorId v n s) c"
proof -
  have "doc_id d < idAt s 1" if "d \<in> set (docsOf s c)" for d
    using that assms by (auto simp add: idsBelow_def list_all_iff intro: less_trans)
  with assms(2) show ?thesis
    by (auto simp add: idsBelow_def list_all_iff)
qed

lemma inOrder_stored:
  assumes "inOrder s (Suc n)"
  shows "inOrder (stored c sensorId v k s) n"
  unfolding inOrder_iff
proof (intro allI impI)
  fix j
  assume "j + 1 < n"
  then have "(j + 1) + 1 < Suc n" by simp
  with assms have "idAt s (j + 1) < idAt s ((j + 1) + 1)"
    unfolding inOrder_iff by blast
  then show "idAt (stored c sensorId v k s) j < idAt (stored c sensorId v k s) (j + 1)"
    by simp
qed

lemma appendAll_in_order:
  assumes "driverUp s" and "collectionOf m s = Some c" and "idsBelow s c"
    and "inOrder s (length rs)" and "rs \<noteq> []"
  shows "snd (appendAll m sensorId rs s) = Return () \<and>
         snd (readLastMetric m sensorId (fst (appendAll m sensorId rs s))) =
           Return \<lparr>sensorValue = fst (last rs), seqNum = snd (last rs)\<rparr>"
  using assms
proof (induction rs arbitrary: s)
  case Nil
  then show ?case by simp
next
  case (Cons r rs)
  let ?s1 = "stored c sensorId (fst r) (snd r) s"
  have w: "writeMetric m sensorId (fst r) (snd r) s = (?s1, Return ())"
    using Cons.prems(1,2) by (rule writeMetric_stored)
  show ?case
  proof (cases "rs = []")
    case True
    from write_then_latest[OF Cons.prems(1-3), of sensorId "fst r" "snd r"] Cons.prems(1)
    show ?thesis
      by (simp add: True w await_def readLastMetric_result)
  next
    case False
    then have "0 + 1 < length (r # rs)"
      by (cases rs) simp_all
    with Cons.prems(4) have "idAt s 0 < idAt s 1"
      unfolding inOrder_iff by fastforce
    with Cons.prems(3) have b: "idsBelow ?s1 c"
      by (rule idsBelow_stored)
    from Cons.prems(4) have o: "inOrder ?s1 (length rs)"
      by (simp add: inOrder_stored)
    have "driverUp ?s1" and "collectionOf m ?s1 = Some c"
      using Cons.prems(1,2) by simp_all
    from Cons.IH[OF this b o False] False show ?thesis
      by (simp add: w await_def)
  qed
qed

text \<open>
  C1, as the code has it. For every metric \<open>m\<close> (so for \<open>writeTemp\<close>/\<open>readLastTemp\<close>,
  \<open>writeDist\<close>/\<open>readLastDist\<close> and \<open>writeSpeed\<close>/\<open>readLastSpeed\<close>) and every sensor: on a
  working connection, with the metric's collection handle set and the stored identifiers
  below the next one, every append of a non-empty sequence \<open>rs\<close> returns, and the read that
  follows returns the value and sequence number of the last append of \<open>rs\<close>, when the
  identifiers that the driver makes for these appends are in order: each append falls
  in a later second than the one before it, or in the same second with a greater
  counter. A sequence of length one is the case "append, then read at once", where that
  condition is empty.
\<close>

theorem latest_is_last_append_in_order:
  assumes "driverUp s" and "collectionOf m s = Some c" and "idsBelow s c"
    and "inOrder s (length rs)" and "rs \<noteq> []"
  shows "snd (appendAll m sensorId rs s) = Return () \<and>
         snd (readLastMetric m sensorId (fst (appendAll m sensorId rs s))) =
           Return \<lparr>sensorValue = fst (last rs), seqNum = snd (last rs)\<rparr>"
  using assms by (rule appendAll_in_order)

lemma exampleSeeded_ready:
  "driverUp exampleSeeded"
  "collectionOf Temperature exampleSeeded = Some ''Temperature''"
  "idsBelow exampleSeeded ''Temperature''"
  "inOrder exampleSeeded (length [(''26'', ''5''), (''27'', ''6'')])"
  by (simp_all add: exampleSeeded_def exampleNew_def driverUp_def idsBelow_def inOrder_def
        docsOf_def defaultReadings_def idAt_def idStamp_def idCounter_def)

theorem latest_is_last_append_in_order_witness:
  "driverUp exampleSeeded \<and> collectionOf Temperature exampleSeeded = Some ''Temperature'' \<and>
   idsBelow exampleSeeded ''Temperature'' \<and>
   inOrder exampleSeeded (length [(''26'', ''5''), (''27'', ''6'')]) \<and>
   [(''26'', ''5''), (''27'', ''6'')] \<noteq> [] \<and>
   snd (appendAll Temperature ''1'' [(''26'', ''5''), (''27'', ''6'')] exampleSeeded) = Return () \<and>
   snd (readLastTemp ''1''
          (fst (appendAll Temperature ''1'' [(''26'', ''5''), (''27'', ''6'')] exampleSeeded))) =
     Return \<lparr>sensorValue = ''27'', seqNum = ''6''\<rparr>"
  using latest_is_last_append_in_order[OF exampleSeeded_ready, of "''1''"] exampleSeeded_ready
  by (simp add: readLastTemp_def)

section \<open>Validation comes before storage\<close>

lemma getError_badRequest:
  "getError (badRequest example) =
     \<lparr>status = 400, code = Some ''BAD_REQUEST'',
      message = Some (''Incorrect url, try like > '' @ example)\<rparr>"
  by (simp add: getError_def badRequest_def BAD_REQUEST_def)

text \<open>
  C5. For every write route (\<open>setTemp\<close>, \<open>setDist\<close>, \<open>setSpeed\<close> are \<open>setMetric\<close> at the
  three metrics): when one of \<open>sensorId\<close>, \<open>value\<close>, \<open>seqNum\<close> is missing or empty, the
  route answers 400 with the code \<open>BAD_REQUEST\<close> and leaves the whole state as it was:
  no document is stored and nothing is added to the FileWriter's log.
\<close>

theorem write_route_validates_first:
  assumes "absent (query req ''sensorId'') \<or> absent (query req ''value'') \<or>
           absent (query req ''seqNum'')"
  shows "setMetric m req s =
     (s, Return \<lparr>statusCode = 400,
                 body = JsonError \<lparr>status = 400, code = Some ''BAD_REQUEST'',
                    message = Some (''Incorrect url, try like > /'' @ routeName m @
                                    ''?sensorId=1&value=26&seqNum=0'')\<rparr>\<rparr>)"
  using assms
  by (simp add: setMetric_def errorWrap_def respondError_def monad_defs getError_badRequest)

theorem write_route_validates_first_witness:
  "absent (query (exampleRequest\<lparr>query := [''sensorId'' \<mapsto> ''1'', ''value'' \<mapsto> [],
                                           ''seqNum'' \<mapsto> ''5'']\<rparr>) ''value'') \<and>
   setTemp (exampleRequest\<lparr>query := [''sensorId'' \<mapsto> ''1'', ''value'' \<mapsto> [],
                                     ''seqNum'' \<mapsto> ''5'']\<rparr>) exampleSeeded =
     (exampleSeeded,
      Return \<lparr>statusCode = 400,
              body = JsonError \<lparr>status = 400, code = Some ''BAD_REQUEST'',
                 message = Some ''Incorrect url, try like > /temp?sensorId=1&value=26&seqNum=0''\<rparr>\<rparr>)"
proof -
  have h: "absent (query (exampleRequest\<lparr>query := [''sensorId'' \<mapsto> ''1'', ''value'' \<mapsto> [],
                                                  ''seqNum'' \<mapsto> ''5'']\<rparr>) ''value'')"
    by (simp add: absent_def)
  from h write_route_validates_first[of _ Temperature exampleSeeded] show ?thesis
    by (simp add: setTemp_def)
qed

section \<open>The route /clearDB\<close>

text \<open>
  What \<open>clear\<close> itself does on a connected instance: it returns and leaves no collection.
\<close>

lemma driverUp_serverData [simp]: "driverUp (s\<lparr>serverData := x\<rparr>) = driverUp s"
  by (simp add: driverUp_def)

lemma dropEach_all:
  assumes "driverUp s" and "databaseConnection s \<noteq> None" and "distinct (map snd es)"
    and "set (map snd es) \<subseteq> set (map fst (serverData s))"
  shows "dropEach es s =
           (s\<lparr>serverData := filter (\<lambda>kv. fst kv \<notin> set (map snd es)) (serverData s)\<rparr>, Return ())"
  using assms
proof (induction es arbitrary: s)
  case Nil
  then show ?case by simp
next
  case (Cons e es)
  let ?s1 = "s\<lparr>serverData := AList.delete (snd e) (serverData s)\<rparr>"
  have d: "db_dropCollection (snd e) s = (?s1, Return ())"
    using Cons.prems by (simp add: db_dropCollection_def)
  have k: "set (map fst (serverData ?s1)) = set (map fst (serverData s)) - {snd e}"
    by (simp add: delete_keys del: set_map)
  have "snd e \<notin> set (map snd es)" and "set (map snd es) \<subseteq> set (map fst (serverData s))"
    using Cons.prems(3,4) by simp_all
  then have "set (map snd es) \<subseteq> set (map fst (serverData ?s1))"
    unfolding k by blast
  with Cons.prems have
    "dropEach es ?s1 =
       (?s1\<lparr>serverData := filter (\<lambda>kv. fst kv \<notin> set (map snd es)) (serverData ?s1)\<rparr>, Return ())"
    by (intro Cons.IH) simp_all
  moreover have "filter (\<lambda>kv. fst kv \<notin> set (map snd es)) (AList.delete (snd e) (serverData s)) =
     filter (\<lambda>kv. fst kv \<notin> set (map snd (e # es))) (serverData s)"
    by (auto simp add: AList.delete_eq intro: filter_cong)
  ultimately show ?case
    using Cons.prems(2) d by (auto simp add: onHandle_def await_def)
qed

lemma clear_drops_all:
  assumes "driverUp s" and "databaseConnection s \<noteq> None" and "distinct (map fst (serverData s))"
  shows "clear s = (s\<lparr>serverData := []\<rparr>, Return ())"
proof -
  have m: "map snd (enumerate 0 (map fst (serverData s))) = map fst (serverData s)"
    by (simp add: enumerate_eq_zip)
  have "dropEach (enumerate 0 (map fst (serverData s))) s =
          (s\<lparr>serverData := filter (\<lambda>kv. fst kv \<notin> set (map snd (enumerate 0 (map fst (serverData s)))))
                               (serverData s)\<rparr>, Return ())"
    using assms by (intro dropEach_all) (simp_all only: m, simp_all)
  moreover have "filter (\<lambda>kv. fst kv \<notin> set (map fst (serverData s))) (serverData s) = []"
    by (auto simp add: filter_empty_conv)
  ultimately show ?thesis
    using assms(1,2) by (auto simp add: clear_def onHandle_def db_listCollections_def await_def m)
qed

text \<open>
  C4. The route calls \<open>app.locals.pcDatabase.clearDatabase()\<close>, and the class has
  \<open>clear\<close> but no \<open>clearDatabase\<close>. On the seeded example, \<open>clear\<close> itself would return
  and leave no collection, yet the route drops nothing and answers \<open>BAD\<close>.
\<close>

theorem clearDB_answers_BAD:
  "snd (clear exampleSeeded) = Return () \<and> serverData (fst (clear exampleSeeded)) = [] \<and>
   clearDatabase exampleRequest exampleSeeded =
     (exampleSeeded\<lparr>console := console exampleSeeded @
        [LogThrown (ThrownError ''TypeError''
                      ''app.locals.pcDatabase.clearDatabase is not a function'')]\<rparr>,
      Return \<lparr>statusCode = 200, body = Send ''BAD''\<rparr>)"
  by (simp add: clearDatabase_def pcDatabase_call_def errorWrap_def monad_defs OK_def
        clear_def exampleSeeded_def onHandle_def db_listCollections_def db_dropCollection_def
        driverUp_def enumerate_eq_zip upt_rec)

text \<open>The same on every state and request: the answer is \<open>BAD\<close>, the data is untouched.\<close>

lemma clearDatabase_always_BAD:
  "clearDatabase req s =
     (s\<lparr>console := console s @
        [LogThrown (ThrownError ''TypeError''
                      ''app.locals.pcDatabase.clearDatabase is not a function'')]\<rparr>,
      Return \<lparr>statusCode = 200, body = Send ''BAD''\<rparr>)"
  by (simp add: clearDatabase_def pcDatabase_call_def errorWrap_def monad_defs OK_def)

section \<open>Closing twice\<close>

text \<open>
  C9. \<open>close\<close> on an instance without a connection only logs; \<open>close\<close> always returns,
  so a second \<open>close\<close> right after the first throws nothing, and it changes nothing but
  the console.
\<close>

theorem close_idempotent:
  "(mongoDBConnection s = None \<longrightarrow>
      close s = (s\<lparr>console := console s @ [LogString ''MongoDB connection closed'']\<rparr>, Return ())) \<and>
   snd (close s) = Return () \<and>
   close (fst (close s)) =
     ((fst (close s))\<lparr>console := console (fst (close s)) @
                                  [LogString ''MongoDB connection closed'']\<rparr>, Return ())"
  by (simp add: close_def mongo_close_def monad_defs)

theorem close_idempotent_witness:
  "mongoDBConnection exampleNew = None \<and>
   close exampleNew =
     (exampleNew\<lparr>console := [LogString ''MongoDB connection closed'']\<rparr>, Return ()) \<and>
   snd (close (fst (close exampleSeeded))) = Return ()"
  using close_idempotent[of exampleNew] close_idempotent[of "fst (close exampleSeeded)"]
  by (simp add: exampleNew_def)

section \<open>The constructor depends on earlier constructions\<close>

text \<open>
  C10. There is a connection string on which the first construction after the module is
  loaded succeeds and a second construction with the same string throws: the result
  depends on the \<open>lastIndex\<close> that the first call left in \<open>REG_DATABASE_NAME\<close>.
\<close>

theorem constructor_not_deterministic:
  "\<exists>dbUrl r1 made.
     GNCDatabase dbUrl moduleLoaded = (r1, Return made) \<and>
     snd (GNCDatabase dbUrl r1) = Throw notIterable"
proof -
  have "GNCDatabase ''mongodb://localhost:27017/gnc'' moduleLoaded =
          (\<lparr>REG_DATABASE_NAME_lastIndex = 29, REG_SERVER_URL_lastIndex = 26\<rparr>,
           Return (''gnc'', ''mongodb://localhost:27017''))"
    by code_simp
  moreover
  have "snd (GNCDatabase ''mongodb://localhost:27017/gnc''
               \<lparr>REG_DATABASE_NAME_lastIndex = 29, REG_SERVER_URL_lastIndex = 26\<rparr>) =
          Throw notIterable"
    by code_simp
  ultimately show ?thesis by blast
qed

text \<open>
  The constructor on any connection string: when the first construction after loading
  succeeds, the second one with the same string throws.
\<close>

lemma regexExec_end:
  "regexExec matchDatabaseName str i = (j, Some g) \<Longrightarrow> j = length str"
  by (auto simp add: regexExec_def matchDatabaseName_def split: option.splits if_splits)

lemma regexExec_at_end:
  "regexExec matchDatabaseName str (length str) = (0, None)"
  by (simp add: regexExec_def matchDatabaseName_def)

lemma second_construction_throws:
  assumes "GNCDatabase dbUrl moduleLoaded = (r1, Return made)"
  shows "snd (GNCDatabase dbUrl r1) = Throw notIterable"
proof -
  from assms have "REG_DATABASE_NAME_lastIndex r1 = length dbUrl"
    by (auto simp add: GNCDatabase_def Let_def split: prod.splits option.splits
          dest: regexExec_end)
  then show ?thesis
    by (simp add: GNCDatabase_def regexExec_at_end)
qed

section \<open>What init does\<close>

lemma init_connect_online:
  "serverOnline s \<Longrightarrow>
   init_connect s =
     (s\<lparr>mongoDBConnection := Some True, databaseConnection := Some (databaseName s),
        console := console s @ [LogString ''Database Connected'']\<rparr>, Return ())"
  by (auto simp add: init_connect_def mongo_connect_def monad_defs)

lemma init_collections_up:
  "driverUp s \<Longrightarrow> databaseConnection s \<noteq> None \<Longrightarrow>
   init_collections s =
     (withHandles (created ''Speed'' (created ''Distance'' (created ''Temperature'' s))), Return ())"
  by (simp add: init_collections_def monad_defs createCollection_created withHandles_def)

lemma init_defaults_up:
  assumes "driverUp s" and "tempCollection s = Some tc" and "distCollection s = Some dc"
    and "speedCollection s = Some sc"
  shows "init_defaults s =
     (stored sc ''4'' ''-1'' ''0'' (stored sc ''3'' ''-1'' ''0'' (stored sc ''2'' ''-1'' ''0'' (stored sc ''1'' ''-1'' ''0''
      (stored dc ''4'' ''-1'' ''0'' (stored dc ''3'' ''-1'' ''0'' (stored dc ''2'' ''-1'' ''0'' (stored dc ''1'' ''-1'' ''0''
      (stored tc ''4'' ''-1'' ''0'' (stored tc ''3'' ''-1'' ''0'' (stored tc ''2'' ''-1'' ''0'' (stored tc ''1'' ''-1'' ''0''
       s))))))))))), Return ())"
  using assms
  by (simp add: init_defaults_def writeTemp_def writeDist_def writeSpeed_def await_def
        writeMetric_stored)

lemma init_online:
  assumes "serverOnline s"
  shows "init s =
     (stored ''Speed'' ''4'' ''-1'' ''0'' (stored ''Speed'' ''3'' ''-1'' ''0'' (stored ''Speed'' ''2'' ''-1'' ''0'' (stored ''Speed'' ''1'' ''-1'' ''0''
      (stored ''Distance'' ''4'' ''-1'' ''0'' (stored ''Distance'' ''3'' ''-1'' ''0'' (stored ''Distance'' ''2'' ''-1'' ''0'' (stored ''Distance'' ''1'' ''-1'' ''0''
      (stored ''Temperature'' ''4'' ''-1'' ''0'' (stored ''Temperature'' ''3'' ''-1'' ''0'' (stored ''Temperature'' ''2'' ''-1'' ''0'' (stored ''Temperature'' ''1'' ''-1'' ''0''
       (withHandles (created ''Speed'' (created ''Distance'' (created ''Temperature''
         (s\<lparr>mongoDBConnection := Some True, databaseConnection := Some (databaseName s),
            console := console s @ [LogString ''Database Connected'']\<rparr>)))))))))))))))), Return ())"
proof -
  let ?s1 = "s\<lparr>mongoDBConnection := Some True, databaseConnection := Some (databaseName s),
            console := console s @ [LogString ''Database Connected'']\<rparr>"
  have up: "driverUp ?s1" "databaseConnection ?s1 \<noteq> None"
    using assms by (simp_all add: driverUp_def)
  let ?s2 = "withHandles (created ''Speed'' (created ''Distance'' (created ''Temperature'' ?s1)))"
  have c: "init_collections ?s1 = (?s2, Return ())"
    using up by (rule init_collections_up)
  have h: "driverUp ?s2" "tempCollection ?s2 = Some ''Temperature''"
     "distCollection ?s2 = Some ''Distance''" "speedCollection ?s2 = Some ''Speed''"
    using up(1) by (simp_all add: withHandles_def)
  show ?thesis
    unfolding init_def
    by (simp only: await_def init_connect_online[OF assms] c init_defaults_up[OF h]
          prod.case completion.case)
qed

lemma stored_key_list:
  "c \<in> set (map fst (serverData s)) \<Longrightarrow>
   map fst (serverData (stored c sid v n s)) = map fst (serverData s)"
  by (simp add: stored_def update_keys del: set_map)

lemma init_effect:
  assumes "serverOnline s"
  shows "snd (init s) = Return ()"
    and "driverUp (fst (init s))"
    and "databaseConnection (fst (init s)) = Some (databaseName s)"
    and "databaseName (fst (init s)) = databaseName s"
    and "collectionOf Temperature (fst (init s)) = Some ''Temperature''"
    and "collectionOf Distance (fst (init s)) = Some ''Distance''"
    and "collectionOf Speed (fst (init s)) = Some ''Speed''"
    and "docsOf (fst (init s)) ''Temperature'' = docsOf s ''Temperature'' @ defaultReadings s 0"
    and "docsOf (fst (init s)) ''Distance'' = docsOf s ''Distance'' @ defaultReadings s 4"
    and "docsOf (fst (init s)) ''Speed'' = docsOf s ''Speed'' @ defaultReadings s 8"
proof -
  let ?s0 = "s\<lparr>mongoDBConnection := Some True, databaseConnection := Some (databaseName s),
            console := console s @ [LogString ''Database Connected'']\<rparr>"
  have up: "driverUp ?s0"
    using assms by (simp add: driverUp_def)
  show "snd (init s) = Return ()"
    by (simp add: init_online[OF assms])
  show "driverUp (fst (init s))"
    using up by (simp add: init_online[OF assms])
  show "databaseConnection (fst (init s)) = Some (databaseName s)"
    by (simp add: init_online[OF assms])
  show "databaseName (fst (init s)) = databaseName s"
    by (simp add: init_online[OF assms])
  show "collectionOf Temperature (fst (init s)) = Some ''Temperature''"
    by (simp add: init_online[OF assms])
  show "collectionOf Distance (fst (init s)) = Some ''Distance''"
    by (simp add: init_online[OF assms])
  show "collectionOf Speed (fst (init s)) = Some ''Speed''"
    by (simp add: init_online[OF assms])
  show "docsOf (fst (init s)) ''Temperature'' = docsOf s ''Temperature'' @ defaultReadings s 0"
    by (simp add: init_online[OF assms] defaultReadings_def eval_nat_numeral)
  show "docsOf (fst (init s)) ''Distance'' = docsOf s ''Distance'' @ defaultReadings s 4"
    by (simp add: init_online[OF assms] defaultReadings_def eval_nat_numeral)
  show "docsOf (fst (init s)) ''Speed'' = docsOf s ''Speed'' @ defaultReadings s 8"
    by (simp add: init_online[OF assms] defaultReadings_def eval_nat_numeral)
qed

lemma idAt_init:
  assumes "serverOnline s"
  shows "idAt (fst (init s)) j = idAt s (j + 12)"
proof -
  have "j + 1 + 1 + 1 + 1 + 1 + 1 + 1 + 1 + 1 + 1 + 1 + 1 = j + 12"
    by simp
  then show ?thesis
    by (simp only: init_online[OF assms] fst_conv stored_fields withHandles_fields
          created_fields docsOf_connected)
qed

lemma four_stored_keys:
  assumes "c \<in> set (map fst (serverData s))"
  shows "map fst (serverData (stored c ''4'' ''-1'' ''0'' (stored c ''3'' ''-1'' ''0''
           (stored c ''2'' ''-1'' ''0'' (stored c ''1'' ''-1'' ''0'' s))))) =
         map fst (serverData s)"
proof -
  have 1: "map fst (serverData (stored c ''1'' ''-1'' ''0'' s)) = map fst (serverData s)"
    using assms by (rule stored_key_list)
  have 2: "map fst (serverData (stored c ''2'' ''-1'' ''0'' (stored c ''1'' ''-1'' ''0'' s))) =
           map fst (serverData s)"
    using assms by (simp only: stored_key_list 1)
  have 3: "map fst (serverData (stored c ''3'' ''-1'' ''0''
             (stored c ''2'' ''-1'' ''0'' (stored c ''1'' ''-1'' ''0'' s)))) =
           map fst (serverData s)"
    using assms by (simp only: stored_key_list 2)
  show ?thesis
    using assms by (simp only: stored_key_list 3)
qed

lemma init_keys:
  assumes "serverOnline s" and "serverData s = []"
  shows "map fst (serverData (fst (init s))) = [''Temperature'', ''Distance'', ''Speed'']"
proof -
  let ?s0 = "s\<lparr>mongoDBConnection := Some True, databaseConnection := Some (databaseName s),
            console := console s @ [LogString ''Database Connected'']\<rparr>"
  let ?s2 = "withHandles (created ''Speed'' (created ''Distance'' (created ''Temperature'' ?s0)))"
  let ?t = "stored ''Temperature'' ''4'' ''-1'' ''0'' (stored ''Temperature'' ''3'' ''-1'' ''0''
           (stored ''Temperature'' ''2'' ''-1'' ''0'' (stored ''Temperature'' ''1'' ''-1'' ''0'' ?s2)))"
  let ?d = "stored ''Distance'' ''4'' ''-1'' ''0'' (stored ''Distance'' ''3'' ''-1'' ''0''
           (stored ''Distance'' ''2'' ''-1'' ''0'' (stored ''Distance'' ''1'' ''-1'' ''0'' ?t)))"
  let ?p = "stored ''Speed'' ''4'' ''-1'' ''0'' (stored ''Speed'' ''3'' ''-1'' ''0''
           (stored ''Speed'' ''2'' ''-1'' ''0'' (stored ''Speed'' ''1'' ''-1'' ''0'' ?d)))"
  have k: "map fst (serverData ?s2) = [''Temperature'', ''Distance'', ''Speed'']"
    using assms(2) by (simp add: created_def withHandles_def)
  have "map fst (serverData ?t) = map fst (serverData ?s2)"
    by (rule four_stored_keys) (unfold k, simp)
  with k have kt: "map fst (serverData ?t) = [''Temperature'', ''Distance'', ''Speed'']"
    by simp
  have "map fst (serverData ?d) = map fst (serverData ?t)"
    by (rule four_stored_keys) (unfold kt, simp)
  with kt have kd: "map fst (serverData ?d) = [''Temperature'', ''Distance'', ''Speed'']"
    by simp
  have "map fst (serverData ?p) = map fst (serverData ?d)"
    by (rule four_stored_keys) (unfold kd, simp)
  with kd have "map fst (serverData ?p) = [''Temperature'', ''Distance'', ''Speed'']"
    by simp
  moreover have "fst (init s) = ?p"
    by (simp only: init_online[OF assms(1)] fst_conv)
  ultimately show ?thesis by simp
qed

lemma init_collections_exist:
  assumes "serverOnline s"
  shows "''Temperature'' \<in> set (map fst (serverData (fst (init s)))) \<and>
         ''Distance'' \<in> set (map fst (serverData (fst (init s)))) \<and>
         ''Speed'' \<in> set (map fst (serverData (fst (init s))))"
  by (simp add: init_online[OF assms] del: set_map)

text \<open>
  C6. When the server answers, \<open>init\<close> returns; the three collection fields are handles
  to \<open>Temperature\<close>, \<open>Distance\<close> and \<open>Speed\<close>, which exist afterwards; and each of the
  three collections has got exactly four more documents, at its end: one per sensorId
  \<open>1\<close>, \<open>2\<close>, \<open>3\<close>, \<open>4\<close>, each with value \<open>-1\<close> and sequence number \<open>0\<close>. On an empty
  database these are all the documents there are.
\<close>

theorem init_seeds_defaults:
  assumes "serverOnline s"
  shows "snd (init s) = Return () \<and>
         tempCollection (fst (init s)) = Some ''Temperature'' \<and>
         distCollection (fst (init s)) = Some ''Distance'' \<and>
         speedCollection (fst (init s)) = Some ''Speed'' \<and>
         ''Temperature'' \<in> set (map fst (serverData (fst (init s)))) \<and>
         ''Distance'' \<in> set (map fst (serverData (fst (init s)))) \<and>
         ''Speed'' \<in> set (map fst (serverData (fst (init s)))) \<and>
         docsOf (fst (init s)) ''Temperature'' = docsOf s ''Temperature'' @ defaultReadings s 0 \<and>
         docsOf (fst (init s)) ''Distance'' = docsOf s ''Distance'' @ defaultReadings s 4 \<and>
         docsOf (fst (init s)) ''Speed'' = docsOf s ''Speed'' @ defaultReadings s 8"
  using init_effect[OF assms] init_collections_exist[OF assms]
  by simp

theorem init_seeds_defaults_witness:
  "serverOnline exampleNew \<and> snd (init exampleNew) = Return () \<and>
   docsOf (fst (init exampleNew)) ''Temperature'' = defaultReadings exampleNew 0 \<and>
   docsOf (fst (init exampleNew)) ''Distance'' = defaultReadings exampleNew 4 \<and>
   docsOf (fst (init exampleNew)) ''Speed'' = defaultReadings exampleNew 8"
proof -
  have h: "serverOnline exampleNew"
    by (simp add: exampleNew_def)
  from init_seeds_defaults[OF h] h show ?thesis
    by (simp add: exampleNew_def docsOf_def)
qed

lemma init_example: "init exampleNew = (exampleSeeded, Return ())"
proof -
  have "serverOnline exampleNew"
    by (simp add: exampleNew_def)
  then show ?thesis
    by (simp add: init_online stored_def idUsed_def created_def withHandles_def docsOf_def
          defaultReadings_def idAt_def idStamp_def idCounter_def exampleNew_def
          exampleSeeded_def)
qed

text \<open>
  C1, as the claim states it, fails. On the third example the driver's counter starts at
  16777201: \<open>init\<close> uses the counters up to 16777213, the first append gets 16777214
  (\<open>0xfffffe\<close>) and the second, in the same second, gets 0. The first append has the
  greater \<open>_id\<close>, so the read after the two appends returns the first one.
\<close>

theorem latest_is_last_append_counterexample:
  "snd (init exampleWrap) = Return () \<and>
   snd (appendAll Temperature ''1'' [(''26'', ''5''), (''27'', ''6'')] (fst (init exampleWrap))) =
     Return () \<and>
   snd (readLastTemp ''1''
          (fst (appendAll Temperature ''1'' [(''26'', ''5''), (''27'', ''6'')]
                  (fst (init exampleWrap))))) =
     Return \<lparr>sensorValue = ''26'', seqNum = ''5''\<rparr>"
proof -
  have on: "serverOnline exampleWrap"
    by (simp add: exampleWrap_def exampleNew_def)
  let ?s = "fst (init exampleWrap)"
  let ?s1 = "stored ''Temperature'' ''1'' ''26'' ''5'' ?s"
  let ?s2 = "stored ''Temperature'' ''1'' ''27'' ''6'' ?s1"
  note e = init_effect[OF on]
  have tc: "tempCollection ?s = Some ''Temperature''"
    using e(5) by simp
  have w1: "writeMetric Temperature ''1'' ''26'' ''5'' ?s = (?s1, Return ())"
    using e(2) e(5) by (rule writeMetric_stored)
  have w2: "writeMetric Temperature ''1'' ''27'' ''6'' ?s1 = (?s2, Return ())"
    by (rule writeMetric_stored) (simp_all add: e(2) tc)
  have a: "appendAll Temperature ''1'' [(''26'', ''5''), (''27'', ''6'')] ?s = (?s2, Return ())"
    by (simp add: await_def w1 w2)
  have "docsOf exampleWrap ''Temperature'' = []"
    by (simp add: docsOf_def exampleWrap_def exampleNew_def)
  then have d: "docsOf ?s2 ''Temperature'' =
      defaultReadings exampleWrap 0 @
      [Document (idAt exampleWrap 12) ''1'' ''26'' ''5'',
       Document (idAt exampleWrap 13) ''1'' ''27'' ''6'']"
    by (simp add: e(8) idAt_init[OF on])
  have i: "idAt exampleWrap 0 = (1700000000, 1, 16777202)"
    "idAt exampleWrap 12 = (1700000060, 1, 16777214)"
    "idAt exampleWrap 13 = (1700000060, 1, 0)"
    by (simp_all add: idAt_def idStamp_def idCounter_def exampleWrap_def exampleNew_def)
  have "latestIn Temperature ''1'' ?s2 =
          greatestId (filter (\<lambda>d. doc_sensorID d = ''1'') (docsOf ?s2 ''Temperature''))"
    by (simp only: latestIn_def collectionOf.simps stored_fields tc option.case)
  also have "\<dots> = Some (Document (idAt exampleWrap 12) ''1'' ''26'' ''5'')"
    unfolding d by (simp add: defaultReadings_def greatestId_def i)
  finally have l: "latestIn Temperature ''1'' ?s2 =
      Some (Document (idAt exampleWrap 12) ''1'' ''26'' ''5'')" .
  have "driverUp ?s2"
    by (simp add: e(2))
  with l show ?thesis
    unfolding a by (simp add: e(1) readLastTemp_def readLastMetric_result)
qed

section \<open>The defaults, and what clear leaves of them\<close>

text \<open>
  C3, as the code has it. After \<open>init\<close> on an empty database and with no append since,
  a read of sensor \<open>1\<close>, \<open>2\<close>, \<open>3\<close> or \<open>4\<close> returns the default \<open>{-1, 0}\<close>, and a read of
  any other sensor throws the read method's string. After a \<open>clear\<close> that follows,
  \<open>clear\<close> returns and a read of every sensor, \<open>1\<close> to \<open>4\<close> included, throws that string:
  \<open>clear\<close> does not put the defaults back.
\<close>

theorem seeded_defaults_until_clear:
  assumes "serverOnline s" and "serverData s = []"
  shows "snd (readLastMetric m sensorId (fst (init s))) =
           (if sensorId \<in> set [''1'', ''2'', ''3'', ''4'']
            then Return \<lparr>sensorValue = ''-1'', seqNum = ''0''\<rparr>
            else Throw (readError m s)) \<and>
         snd (clear (fst (init s))) = Return () \<and>
         snd (readLastMetric m sensorId (fst (clear (fst (init s))))) = Throw (readError m s)"
proof -
  let ?s1 = "fst (init s)"
  note e = init_effect[OF assms(1)]
  have d: "docsOf s c = []" for c
    using assms(2) by (simp add: docsOf_def)
  have l: "map_option (\<lambda>d. (doc_sensorValue d, doc_seqNum d)) (latestIn m sensorId ?s1) =
             (if sensorId \<in> set [''1'', ''2'', ''3'', ''4''] then Some (''-1'', ''0'') else None)"
    using e(5-10)
    by (cases m) (auto simp add: latestIn_def d defaultReadings_def greatestId_def)
  have r: "readError m ?s1 = readError m s"
    using e(4) by (simp add: readError_def)
  have a: "snd (readLastMetric m sensorId ?s1) =
           (if sensorId \<in> set [''1'', ''2'', ''3'', ''4'']
            then Return \<lparr>sensorValue = ''-1'', seqNum = ''0''\<rparr>
            else Throw (readError m s))"
  proof (cases "latestIn m sensorId ?s1")
    case None
    with l have "sensorId \<notin> set [''1'', ''2'', ''3'', ''4'']"
      by (simp split: if_splits)
    with None e(2) show ?thesis
      by (simp add: readLastMetric_result r)
  next
    case (Some d)
    with l have "sensorId \<in> set [''1'', ''2'', ''3'', ''4''] \<and>
        doc_sensorValue d = ''-1'' \<and> doc_seqNum d = ''0''"
      by (simp split: if_splits)
    with Some e(2) show ?thesis
      by (simp add: readLastMetric_result)
  qed
  have k: "distinct (map fst (serverData ?s1))"
    by (simp add: init_keys[OF assms])
  have c: "clear ?s1 = (?s1\<lparr>serverData := []\<rparr>, Return ())"
    using e(2) e(3) k by (intro clear_drops_all) simp_all
  have l2: "latestIn m sensorId (?s1\<lparr>serverData := []\<rparr>) = None"
    by (cases m) (simp_all add: latestIn_def docsOf_def greatestId_def split: option.splits)
  have r2: "readError m (?s1\<lparr>serverData := []\<rparr>) = readError m s"
    using e(4) by (simp add: readError_def)
  have b: "snd (readLastMetric m sensorId (?s1\<lparr>serverData := []\<rparr>)) = Throw (readError m s)"
    unfolding readLastMetric_result l2 r2 by simp
  show ?thesis
    unfolding c using a b e(1) by simp
qed

theorem seeded_defaults_until_clear_witness:
  "serverOnline exampleNew \<and> serverData exampleNew = [] \<and>
   snd (readLastTemp ''1'' (fst (init exampleNew))) =
     Return \<lparr>sensorValue = ''-1'', seqNum = ''0''\<rparr> \<and>
   snd (readLastTemp ''7'' (fst (init exampleNew))) =
     Throw (ThrownString ''One or more errors in reading Database: gnc Collection: temperature'') \<and>
   snd (readLastTemp ''1'' (fst (clear (fst (init exampleNew))))) =
     Throw (ThrownString ''One or more errors in reading Database: gnc Collection: temperature'')"
proof -
  have h: "serverOnline exampleNew" "serverData exampleNew = []"
    by (simp_all add: exampleNew_def)
  from seeded_defaults_until_clear[OF h, of Temperature "''1''"]
       seeded_defaults_until_clear[OF h, of Temperature "''7''"] h
  show ?thesis
    by (simp add: readLastTemp_def readError_def exampleNew_def)
qed

text \<open>
  C3, as the claim states it, fails: after \<open>init\<close> and \<open>clear\<close>, with no append in
  between or after, the read of sensor \<open>1\<close> throws instead of returning \<open>{-1, 0}\<close>.
\<close>

theorem default_after_clear_counterexample:
  "snd (clear exampleSeeded) = Return () \<and>
   snd (readLastTemp ''1'' (fst (clear exampleSeeded))) =
     Throw (ThrownString ''One or more errors in reading Database: gnc Collection: temperature'')"
  by (simp add: readLastTemp_def readLastMetric_result latestIn_def docsOf_def greatestId_def
        readError_def clear_def onHandle_def db_listCollections_def db_dropCollection_def
        driverUp_def enumerate_eq_zip upt_rec monad_defs exampleSeeded_def)

section \<open>A read that finds no document\<close>

lemma latestIn_none:
  assumes "collectionOf m s = Some c"
    and "filter (\<lambda>d. doc_sensorID d = sensorId) (docsOf s c) = []"
  shows "latestIn m sensorId s = None"
  using assms by (simp add: latestIn_def greatestId_def)

lemma getError_readError:
  "getError (readError m s) =
     \<lparr>status = 500, code = Some ''INTERNAL'',
      message = Some (''One or more errors in reading Database: '' @ databaseName s @
                      '' Collection: '' @ collectionLabel m)\<rparr>"
  by (simp add: getError_def readError_def SERVER_ERROR_def)

lemma getMetric_throws:
  assumes "snd (readLastMetric m sensorId s) = Throw e" and "sensorId \<noteq> []"
  shows "snd (getMetric m (req\<lparr>params_sensorId := Some sensorId\<rparr>) s) =
           Return \<lparr>statusCode = status (getError e), body = JsonError (getError e)\<rparr>"
  using assms
  by (cases "readLastMetric m sensorId s")
     (simp add: getMetric_def errorWrap_def respondError_def monad_defs Let_def)

text \<open>
  C2, as the code has it. For every metric and every non-empty sensorId without a
  document in the metric's collection, the read method throws the plain string
  \<open>One or more errors in reading Database: <databaseName> Collection: <label>\<close>, which
  is no domain error, and the read route answers 500 with the code \<open>INTERNAL\<close> and that
  string as the message.
\<close>

theorem no_reading_answers_500:
  assumes "collectionOf m s = Some c"
    and "filter (\<lambda>d. doc_sensorID d = sensorId) (docsOf s c) = []"
    and "sensorId \<noteq> []"
  shows "snd (readLastMetric m sensorId s) = Throw (readError m s) \<and>
         snd (getMetric m (req\<lparr>params_sensorId := Some sensorId\<rparr>) s) =
           Return \<lparr>statusCode = 500,
                   body = JsonError \<lparr>status = 500, code = Some ''INTERNAL'',
                     message = Some (''One or more errors in reading Database: '' @ databaseName s @
                                     '' Collection: '' @ collectionLabel m)\<rparr>\<rparr>"
proof -
  have t: "snd (readLastMetric m sensorId s) = Throw (readError m s)"
    by (simp add: readLastMetric_result latestIn_none[OF assms(1,2)])
  from getMetric_throws[OF t assms(3)] t show ?thesis
    by (simp add: getError_readError)
qed

theorem no_reading_answers_500_witness:
  "collectionOf Distance exampleSeeded = Some ''Distance'' \<and>
   filter (\<lambda>d. doc_sensorID d = ''99'') (docsOf exampleSeeded ''Distance'') = [] \<and>
   ''99'' \<noteq> [] \<and>
   snd (getDist (exampleRequest\<lparr>params_sensorId := Some ''99''\<rparr>) exampleSeeded) =
     Return \<lparr>statusCode = 500,
             body = JsonError \<lparr>status = 500, code = Some ''INTERNAL'',
               message = Some ''One or more errors in reading Database: gnc Collection: distance''\<rparr>\<rparr>"
proof -
  have h: "collectionOf Distance exampleSeeded = Some ''Distance''"
    "filter (\<lambda>d. doc_sensorID d = ''99'') (docsOf exampleSeeded ''Distance'') = []"
    "''99'' \<noteq> []"
    by (simp_all add: exampleSeeded_def docsOf_def defaultReadings_def)
  from no_reading_answers_500[OF h, of exampleRequest] h show ?thesis
    by (simp add: getDist_def exampleSeeded_def)
qed

text \<open>
  C2, as the claim states it, fails: \<open>GET /temp/99\<close> on the seeded example, where sensor
  \<open>99\<close> has no document, answers 500 with the code \<open>INTERNAL\<close>, not 404 with \<open>NOT_FOUND\<close>,
  and the message does not name the sensor.
\<close>

theorem not_found_counterexample:
  "snd (readLastTemp ''99'' exampleSeeded) =
     Throw (ThrownString ''One or more errors in reading Database: gnc Collection: temperature'') \<and>
   snd (getTemp (exampleRequest\<lparr>params_sensorId := Some ''99''\<rparr>) exampleSeeded) =
     Return \<lparr>statusCode = 500,
             body = JsonError \<lparr>status = 500, code = Some ''INTERNAL'',
               message = Some ''One or more errors in reading Database: gnc Collection: temperature''\<rparr>\<rparr>"
  by (simp add: getTemp_def getMetric_def errorWrap_def respondError_def monad_defs Let_def
        readLastTemp_def readLastMetric_result latestIn_def docsOf_def greatestId_def
        defaultReadings_def readError_def getError_def SERVER_ERROR_def driverUp_def
        exampleSeeded_def exampleRequest_def)

section \<open>A read that cannot reach the data\<close>

text \<open>
  C8, as the code has it. When the driver cannot reach the data (closed client or server
  down), a read method throws the string \<open>readError\<close> of its metric, and it throws the very
  same string when the driver works and there is no document for the sensor.
\<close>

theorem read_fault_same_error:
  "(\<not> driverUp s \<longrightarrow> snd (readLastMetric m sensorId s) = Throw (readError m s)) \<and>
   (driverUp s \<and> latestIn m sensorId s = None \<longrightarrow>
      snd (readLastMetric m sensorId s) = Throw (readError m s))"
  by (simp add: readLastMetric_result)

theorem read_fault_same_error_witness:
  "\<not> driverUp (exampleSeeded\<lparr>serverOnline := False\<rparr>) \<and>
   snd (readLastSpeed ''1'' (exampleSeeded\<lparr>serverOnline := False\<rparr>)) =
     Throw (readError Speed exampleSeeded) \<and>
   driverUp exampleSeeded \<and> latestIn Speed ''99'' exampleSeeded = None \<and>
   snd (readLastSpeed ''99'' exampleSeeded) = Throw (readError Speed exampleSeeded)"
proof -
  have h: "\<not> driverUp (exampleSeeded\<lparr>serverOnline := False\<rparr>)" "driverUp exampleSeeded"
    "latestIn Speed ''99'' exampleSeeded = None"
    by (simp_all add: driverUp_def latestIn_def docsOf_def greatestId_def defaultReadings_def
          exampleSeeded_def)
  from read_fault_same_error[of "exampleSeeded\<lparr>serverOnline := False\<rparr>" Speed "''1''"]
       read_fault_same_error[of exampleSeeded Speed "''99''"] h
  show ?thesis
    by (simp add: readLastSpeed_def readError_def)
qed

text \<open>
  C8, as the claim states it, fails: on the seeded example the read of sensor \<open>1\<close> with
  the server down and the read of the unknown sensor \<open>99\<close> with the server up throw the
  same value.
\<close>

theorem read_fault_distinct_counterexample:
  "snd (readLastTemp ''1'' (exampleSeeded\<lparr>serverOnline := False\<rparr>)) =
     Throw (ThrownString ''One or more errors in reading Database: gnc Collection: temperature'') \<and>
   snd (readLastTemp ''99'' exampleSeeded) =
     Throw (ThrownString ''One or more errors in reading Database: gnc Collection: temperature'')"
  by (simp add: readLastTemp_def readLastMetric_result latestIn_def docsOf_def greatestId_def
        defaultReadings_def readError_def driverUp_def exampleSeeded_def)

end
